theory Spec2Isabelle
  imports Complex_Main
begin

section \<open>Reading progress tracker: data model\<close>

text \<open>
  The backend keeps one table, \<^verbatim>\<open>books\<close> (models.py), and changes it through the
  functions of crud.py. A \<^verbatim>\<open>datetime\<close> is a point on a discrete time line; a nullable
  column is an \<open>option\<close>. The columns \<^verbatim>\<open>title\<close>, \<^verbatim>\<open>author\<close> and \<^verbatim>\<open>total_pages\<close> are declared
  \<^verbatim>\<open>nullable=False\<close>. The column \<^verbatim>\<open>current_page\<close> is nullable in the table, but no function of
  crud.py stores \<^verbatim>\<open>None\<close> in it (see \<open>setattr_fields\<close> below), so it is an \<open>int\<close> here; the same
  holds for \<^verbatim>\<open>created_at\<close> and \<^verbatim>\<open>updated_at\<close>, which no function clears.
\<close>

type_synonym datetime = nat

record Book =
  bk_id :: int
  title :: string
  author :: string
  total_pages :: int
  current_page :: int
  status :: "string option"
  cover_url :: "string option"
  genre :: "string option"
  book_notes :: "string option"
  rating :: "real option"
  is_favorite :: "bool option"
  started_at :: "datetime option"
  completed_at :: "datetime option"
  created_at :: datetime
  updated_at :: datetime

text \<open>
  The readings of the clock. Each function of crud.py reads the clock at most once at each of
  four places: where it sets \<^verbatim>\<open>started_at\<close>, where it sets \<^verbatim>\<open>completed_at\<close>, where the table's
  default fills \<^verbatim>\<open>created_at\<close>, and where \<^verbatim>\<open>updated_at\<close> is set. The four readings of one call
  are independent values: nothing is assumed about their order.
\<close>

record clock =
  now_started :: datetime
  now_completed :: datetime
  now_created :: datetime
  now_updated :: datetime

text \<open>The exceptions a call can end with.\<close>

datatype py_error = TypeError | IntegrityError | ValidationError

text \<open>
  The session is the content of the table, in insertion order. \<^verbatim>\<open>id\<close> is the primary key;
  a new row gets a key above every key in use.
\<close>

type_synonym Session = "Book list"

definition next_id :: "Session \<Rightarrow> int" where
  "next_id db = fold max (map bk_id db) 0 + 1"

text \<open>Writing a changed row back: the row with the same primary key is replaced.\<close>

definition commit :: "Session \<Rightarrow> Book \<Rightarrow> Session" where
  "commit db b = map (\<lambda>r. if bk_id r = bk_id b then b else r) db"

section \<open>schemas.py\<close>

definition allowed_statuses :: "string list" where
  "allowed_statuses = [''not_started'', ''in_progress'', ''completed'']"

text \<open>
  \<^verbatim>\<open>Field(..., max_length=n)\<close> on an optional string: \<^verbatim>\<open>None\<close> passes.
\<close>

definition max_length_ok :: "nat \<Rightarrow> string option \<Rightarrow> bool" where
  "max_length_ok n v = (case v of None \<Rightarrow> True | Some s \<Rightarrow> length s \<le> n)"

definition rating_ok :: "real option \<Rightarrow> bool" where
  "rating_ok v = (case v of None \<Rightarrow> True | Some r \<Rightarrow> 0 \<le> r \<and> r \<le> 5)"

text \<open>
  The body of a create request: the fields of \<^verbatim>\<open>BookBase\<close> as the client sent them.
  \<^verbatim>\<open>title\<close>, \<^verbatim>\<open>author\<close> and \<^verbatim>\<open>total_pages\<close> are required; for the others \<open>None\<close> is a field left
  out.
\<close>

record BookCreate_request =
  req_title :: string
  req_author :: string
  req_total_pages :: int
  req_current_page :: "int option"
  req_status :: "string option"
  req_cover_url :: "string option"
  req_genre :: "string option"
  req_notes :: "string option"
  req_rating :: "real option"
  req_is_favorite :: "bool option"

text \<open>\<^verbatim>\<open>BookCreate\<close>: a validated request with the defaults filled in.\<close>

record BookCreate =
  bc_title :: string
  bc_author :: string
  bc_total_pages :: int
  bc_current_page :: int
  bc_status :: string
  bc_cover_url :: "string option"
  bc_genre :: "string option"
  bc_notes :: "string option"
  bc_rating :: "real option"
  bc_is_favorite :: bool

text \<open>The field constraints of \<^verbatim>\<open>BookBase\<close> and its \<^verbatim>\<open>validate_status\<close>.\<close>

definition BookCreate_valid :: "BookCreate \<Rightarrow> bool" where
  "BookCreate_valid c =
     (1 \<le> length (bc_title c) \<and> length (bc_title c) \<le> 255 \<and>
      1 \<le> length (bc_author c) \<and> length (bc_author c) \<le> 255 \<and>
      0 < bc_total_pages c \<and>
      0 \<le> bc_current_page c \<and>
      List.member allowed_statuses (bc_status c) \<and>
      max_length_ok 500 (bc_cover_url c) \<and>
      max_length_ok 100 (bc_genre c) \<and>
      rating_ok (bc_rating c))"

text \<open>
  Building a \<^verbatim>\<open>BookCreate\<close> from a request: \<^verbatim>\<open>current_page\<close> defaults to 0, \<^verbatim>\<open>status\<close> to
  \<^verbatim>\<open>"not_started"\<close>, \<^verbatim>\<open>is_favorite\<close> to \<^verbatim>\<open>False\<close>; a constraint that fails raises.
\<close>

definition BookCreate_parse :: "BookCreate_request \<Rightarrow> py_error + BookCreate" where
  "BookCreate_parse r =
     (let c = \<lparr>bc_title = req_title r,
               bc_author = req_author r,
               bc_total_pages = req_total_pages r,
               bc_current_page = (case req_current_page r of None \<Rightarrow> 0 | Some v \<Rightarrow> v),
               bc_status = (case req_status r of None \<Rightarrow> ''not_started'' | Some v \<Rightarrow> v),
               bc_cover_url = req_cover_url r,
               bc_genre = req_genre r,
               bc_notes = req_notes r,
               bc_rating = req_rating r,
               bc_is_favorite = (case req_is_favorite r of None \<Rightarrow> False | Some v \<Rightarrow> v)\<rparr>
      in if BookCreate_valid c then Inr c else Inl ValidationError)"

text \<open>
  \<^verbatim>\<open>BookUpdate\<close>: every field is optional, and \<^verbatim>\<open>model_dump(exclude_unset=True)\<close> keeps the
  fields the client sent. For each field, \<open>None\<close> is a field not sent (absent from
  \<^verbatim>\<open>update_data\<close>), \<open>Some None\<close> a field sent as \<^verbatim>\<open>null\<close> (present with the value \<^verbatim>\<open>None\<close>),
  \<open>Some (Some v)\<close> a field sent with the value \<open>v\<close>.
\<close>

record BookUpdate =
  upd_title :: "string option option"
  upd_author :: "string option option"
  upd_total_pages :: "int option option"
  upd_current_page :: "int option option"
  upd_status :: "string option option"
  upd_cover_url :: "string option option"
  upd_genre :: "string option option"
  upd_notes :: "string option option"
  upd_rating :: "real option option"
  upd_is_favorite :: "bool option option"

text \<open>A constraint of an optional field applies to a value that is sent and is not \<^verbatim>\<open>null\<close>.\<close>

definition field_ok :: "('a \<Rightarrow> bool) \<Rightarrow> 'a option option \<Rightarrow> bool" where
  "field_ok P v = (case v of None \<Rightarrow> True | Some None \<Rightarrow> True | Some (Some x) \<Rightarrow> P x)"

definition BookUpdate_valid :: "BookUpdate \<Rightarrow> bool" where
  "BookUpdate_valid u =
     (field_ok (\<lambda>s. 1 \<le> length s \<and> length s \<le> 255) (upd_title u) \<and>
      field_ok (\<lambda>s. 1 \<le> length s \<and> length s \<le> 255) (upd_author u) \<and>
      field_ok (\<lambda>n. 0 < n) (upd_total_pages u) \<and>
      field_ok (\<lambda>n. 0 \<le> n) (upd_current_page u) \<and>
      field_ok (\<lambda>s. List.member allowed_statuses s) (upd_status u) \<and>
      field_ok (\<lambda>s. length s \<le> 500) (upd_cover_url u) \<and>
      field_ok (\<lambda>s. length s \<le> 100) (upd_genre u) \<and>
      field_ok (\<lambda>r. 0 \<le> r \<and> r \<le> 5) (upd_rating u))"

text \<open>\<^verbatim>\<open>ProgressUpdate\<close>: \<^verbatim>\<open>current_page\<close> with \<^verbatim>\<open>ge=0\<close> and a validator that says the same.\<close>

definition ProgressUpdate_valid :: "int \<Rightarrow> bool" where
  "ProgressUpdate_valid current_page' = (0 \<le> current_page')"

section \<open>crud.py\<close>

subsection \<open>create_book\<close>

text \<open>
  The new object has the fields of the \<^verbatim>\<open>BookCreate\<close>; \<^verbatim>\<open>started_at\<close> and \<^verbatim>\<open>completed_at\<close> are
  not among them, so both are \<^verbatim>\<open>None\<close> before the two tests. The insert assigns the key and
  the defaults of \<^verbatim>\<open>created_at\<close> and \<^verbatim>\<open>updated_at\<close>.
\<close>

definition create_book :: "clock \<Rightarrow> Session \<Rightarrow> BookCreate \<Rightarrow> Session \<times> Book" where
  "create_book clk db book =
     (let b0 = \<lparr>bk_id = next_id db,
                title = bc_title book,
                author = bc_author book,
                total_pages = bc_total_pages book,
                current_page = bc_current_page book,
                status = Some (bc_status book),
                cover_url = bc_cover_url book,
                genre = bc_genre book,
                book_notes = bc_notes book,
                rating = bc_rating book,
                is_favorite = Some (bc_is_favorite book),
                started_at = None,
                completed_at = None,
                created_at = now_created clk,
                updated_at = now_updated clk\<rparr>;
          b1 = (if status b0 = Some ''in_progress'' \<and> started_at b0 = None
                then b0\<lparr>started_at := Some (now_started clk)\<rparr>
                else b0);
          b2 = (if status b1 = Some ''completed'' \<and> completed_at b1 = None
                then b1\<lparr>completed_at := Some (now_completed clk),
                        current_page := total_pages b1\<rparr>
                else b1)
      in (db @ [b2], b2))"

subsection \<open>get_book\<close>

definition get_book :: "Session \<Rightarrow> int \<Rightarrow> Book option" where
  "get_book db book_id = find (\<lambda>r. bk_id r = book_id) db"

subsection \<open>update_book\<close>

text \<open>
  Lines 85 to 98, the status given in the update. \<^verbatim>\<open>new_status\<close> is the value sent, which
  may be \<^verbatim>\<open>None\<close>.
\<close>

definition status_changes :: "clock \<Rightarrow> BookUpdate \<Rightarrow> Book \<Rightarrow> Book" where
  "status_changes clk u db_book =
     (case upd_status u of
        None \<Rightarrow> db_book
      | Some new_status \<Rightarrow>
          (let b1 = (if new_status = Some ''in_progress'' \<and> status db_book \<noteq> Some ''in_progress''
                     then (if started_at db_book = None
                           then db_book\<lparr>started_at := Some (now_started clk)\<rparr>
                           else db_book)
                     else db_book)
           in if new_status = Some ''completed'' \<and> status b1 \<noteq> Some ''completed''
              then (let b2 = b1\<lparr>completed_at := Some (now_completed clk)\<rparr>
                    in if upd_current_page u = None
                       then b2\<lparr>current_page := total_pages b2\<rparr>
                       else b2)
              else b1))"

text \<open>
  Lines 101 to 115, the page given in the update. \<^verbatim>\<open>update_data.get("total_pages", ...)\<close>
  is the value sent when the key is present, \<^verbatim>\<open>None\<close> included. Python compares left to
  right and stops at the first false conjunct; comparing \<^verbatim>\<open>None\<close> with an integer by
  \<^verbatim>\<open><\<close>, \<^verbatim>\<open>>\<close> or \<^verbatim>\<open>>=\<close> raises \<^verbatim>\<open>TypeError\<close>, while \<^verbatim>\<open>None == 0\<close> is false.
\<close>

definition mark_in_progress :: "clock \<Rightarrow> Book \<Rightarrow> Book" where
  "mark_in_progress clk b =
     (let b1 = b\<lparr>status := Some ''in_progress''\<rparr>
      in if started_at b1 = None then b1\<lparr>started_at := Some (now_started clk)\<rparr> else b1)"

definition mark_completed :: "clock \<Rightarrow> Book \<Rightarrow> Book" where
  "mark_completed clk b =
     (let b1 = b\<lparr>status := Some ''completed''\<rparr>
      in if completed_at b1 = None then b1\<lparr>completed_at := Some (now_completed clk)\<rparr> else b1)"

definition progress_changes :: "clock \<Rightarrow> BookUpdate \<Rightarrow> Book \<Rightarrow> py_error + Book" where
  "progress_changes clk u db_book =
     (case upd_current_page u of
        None \<Rightarrow> Inr db_book
      | Some None \<Rightarrow> Inl TypeError
      | Some (Some cp) \<Rightarrow>
          (let tp = (case upd_total_pages u of None \<Rightarrow> Some (total_pages db_book) | Some v \<Rightarrow> v);
               no_status = (upd_status u = None)
           in if cp = 0 \<and> no_status then Inr (db_book\<lparr>status := Some ''not_started''\<rparr>)
              else (case tp of
                      None \<Rightarrow> Inl TypeError
                    | Some t \<Rightarrow>
                        if 0 < cp \<and> cp < t \<and> no_status then Inr (mark_in_progress clk db_book)
                        else if t \<le> cp \<and> no_status then Inr (mark_completed clk db_book)
                        else Inr db_book)))"

text \<open>
  Lines 118 to 122: every field of \<^verbatim>\<open>update_data\<close> is written to the object, then
  \<^verbatim>\<open>updated_at\<close>, then the commit. A \<^verbatim>\<open>None\<close> written to a column that is not nullable makes
  the commit raise \<^verbatim>\<open>IntegrityError\<close>, and nothing is stored. A \<^verbatim>\<open>None\<close> for
  \<^verbatim>\<open>current_page\<close> never reaches these lines, since line 108 has raised before.
\<close>

definition setattr_fields :: "BookUpdate \<Rightarrow> Book \<Rightarrow> py_error + Book" where
  "setattr_fields u b =
     (if upd_current_page u = Some None then Inl TypeError
      else if upd_title u = Some None \<or> upd_author u = Some None \<or> upd_total_pages u = Some None
      then Inl IntegrityError
      else Inr (b\<lparr>title := (case upd_title u of Some (Some v) \<Rightarrow> v | _ \<Rightarrow> title b),
                  author := (case upd_author u of Some (Some v) \<Rightarrow> v | _ \<Rightarrow> author b),
                  total_pages := (case upd_total_pages u of Some (Some v) \<Rightarrow> v | _ \<Rightarrow> total_pages b),
                  current_page := (case upd_current_page u of Some (Some v) \<Rightarrow> v | _ \<Rightarrow> current_page b),
                  status := (case upd_status u of None \<Rightarrow> status b | Some v \<Rightarrow> v),
                  cover_url := (case upd_cover_url u of None \<Rightarrow> cover_url b | Some v \<Rightarrow> v),
                  genre := (case upd_genre u of None \<Rightarrow> genre b | Some v \<Rightarrow> v),
                  book_notes := (case upd_notes u of None \<Rightarrow> book_notes b | Some v \<Rightarrow> v),
                  rating := (case upd_rating u of None \<Rightarrow> rating b | Some v \<Rightarrow> v),
                  is_favorite := (case upd_is_favorite u of None \<Rightarrow> is_favorite b | Some v \<Rightarrow> v)\<rparr>))"

text \<open>
  The result is the exception raised, or the session after the call with the value
  returned: \<^verbatim>\<open>None\<close> for an identifier that is not in the table.
\<close>

definition update_book ::
  "clock \<Rightarrow> Session \<Rightarrow> int \<Rightarrow> BookUpdate \<Rightarrow> py_error + (Session \<times> Book option)" where
  "update_book clk db book_id u =
     (case get_book db book_id of
        None \<Rightarrow> Inr (db, None)
      | Some db_book \<Rightarrow>
          (case progress_changes clk u (status_changes clk u db_book) of
             Inl e \<Rightarrow> Inl e
           | Inr b1 \<Rightarrow>
               (case setattr_fields u b1 of
                  Inl e \<Rightarrow> Inl e
                | Inr b2 \<Rightarrow>
                    (let b3 = b2\<lparr>updated_at := now_updated clk\<rparr>
                     in Inr (commit db b3, Some b3)))))"

subsection \<open>update_book_progress\<close>

text \<open>
  Lines 135 to 156, on the object read from the table: the page is capped at the number of
  pages, the status and the two timestamps follow from the capped page, and \<^verbatim>\<open>updated_at\<close> is
  set last.
\<close>

definition progress_fields :: "clock \<Rightarrow> int \<Rightarrow> Book \<Rightarrow> Book" where
  "progress_fields clk requested_page db_book =
     (let cp = min requested_page (total_pages db_book);
          b1 = db_book\<lparr>current_page := cp\<rparr>;
          b2 = (if cp = 0
                then b1\<lparr>status := Some ''not_started'', started_at := None, completed_at := None\<rparr>
                else if cp < total_pages b1
                then (let b = b1\<lparr>status := Some ''in_progress''\<rparr>;
                          b' = (if started_at b = None
                                then b\<lparr>started_at := Some (now_started clk)\<rparr> else b)
                      in b'\<lparr>completed_at := None\<rparr>)
                else (let b = b1\<lparr>status := Some ''completed''\<rparr>;
                          b' = (if started_at b = None
                                then b\<lparr>started_at := Some (now_started clk)\<rparr> else b)
                      in if completed_at b' = None
                         then b'\<lparr>completed_at := Some (now_completed clk)\<rparr> else b'))
      in b2\<lparr>updated_at := now_updated clk\<rparr>)"

definition update_book_progress :: "clock \<Rightarrow> Session \<Rightarrow> int \<Rightarrow> int \<Rightarrow> Session \<times> Book option" where
  "update_book_progress clk db book_id requested_page =
     (case get_book db book_id of
        None \<Rightarrow> (db, None)
      | Some db_book \<Rightarrow>
          (let b = progress_fields clk requested_page db_book
           in (commit db b, Some b)))"

subsection \<open>update_book_notes\<close>

definition update_book_notes :: "clock \<Rightarrow> Session \<Rightarrow> int \<Rightarrow> string \<Rightarrow> Session \<times> Book option" where
  "update_book_notes clk db book_id note_text =
     (case get_book db book_id of
        None \<Rightarrow> (db, None)
      | Some db_book \<Rightarrow>
          (let b = db_book\<lparr>book_notes := Some note_text, updated_at := now_updated clk\<rparr>
           in (commit db b, Some b)))"

subsection \<open>delete_book\<close>

definition delete_book :: "Session \<Rightarrow> int \<Rightarrow> Session \<times> bool" where
  "delete_book db book_id =
     (case get_book db book_id of
        None \<Rightarrow> (db, False)
      | Some db_book \<Rightarrow> (filter (\<lambda>r. bk_id r \<noteq> bk_id db_book) db, True))"

subsection \<open>get_reading_stats\<close>

text \<open>
  The counts and the sum of the pages are integers. The average is computed in floating
  point: the table's engine adds up \<^verbatim>\<open>(current_page * 100.0) / total_pages\<close> over the rows with
  a positive number of pages, and Python divides by the number of rows and rounds with
  \<^verbatim>\<open>round(..., 2)\<close>. That arithmetic is not modelled: the function takes the rounded mean of
  a non-empty table as a parameter, applied to the pages and numbers of pages of the rows,
  and the constant \<^verbatim>\<open>0.0\<close> as another. \<open>'f\<close> stands for the type of floating-point numbers.
\<close>

record 'f BookStats =
  total_books :: int
  books_in_progress :: int
  books_completed :: int
  books_not_started :: int
  total_pages_read :: int
  average_progress :: 'f

definition status_count :: "Session \<Rightarrow> string \<Rightarrow> int" where
  "status_count db s = int (length (filter (\<lambda>r. status r = Some s) db))"

definition get_reading_stats :: "((int \<times> int) list \<Rightarrow> 'f) \<Rightarrow> 'f \<Rightarrow> Session \<Rightarrow> 'f BookStats" where
  "get_reading_stats rounded_mean float_zero db =
     (let n = int (length db)
      in \<lparr>total_books = n,
          books_in_progress = status_count db ''in_progress'',
          books_completed = status_count db ''completed'',
          books_not_started = status_count db ''not_started'',
          total_pages_read = sum_list (map current_page db),
          average_progress =
            (if 0 < n then rounded_mean (map (\<lambda>r. (current_page r, total_pages r)) db)
             else float_zero)\<rparr>)"

section \<open>The tables the program can reach\<close>

text \<open>
  The tables that calls with validated arguments produce from the empty table, and what
  holds of each of their rows: the number of pages is positive and the page is not
  negative.
\<close>

definition row_ok :: "Book \<Rightarrow> bool" where
  "row_ok b = (0 < total_pages b \<and> 0 \<le> current_page b)"

inductive reachable :: "Session \<Rightarrow> bool" where
  empty: "reachable []"
| created: "reachable db \<Longrightarrow> BookCreate_valid c \<Longrightarrow> reachable (fst (create_book clk db c))"
| updated: "reachable db \<Longrightarrow> BookUpdate_valid u \<Longrightarrow> update_book clk db i u = Inr (db', r) \<Longrightarrow>
     reachable db'"
| progressed: "reachable db \<Longrightarrow> ProgressUpdate_valid p \<Longrightarrow>
     reachable (fst (update_book_progress clk db i p))"
| annotated: "reachable db \<Longrightarrow> reachable (fst (update_book_notes clk db i s))"
| deleted: "reachable db \<Longrightarrow> reachable (fst (delete_book db i))"

section \<open>Example values\<close>

definition ex_clock :: clock where
  "ex_clock = \<lparr>now_started = 1001, now_completed = 1002, now_created = 1003, now_updated = 1004\<rparr>"

text \<open>A book half read, and a book read to the end.\<close>

definition ex_reading :: Book where
  "ex_reading = \<lparr>bk_id = 1, title = ''Dune'', author = ''Herbert'', total_pages = 200,
     current_page = 50, status = Some ''in_progress'', cover_url = None, genre = None,
     book_notes = None, rating = None, is_favorite = Some False, started_at = Some 500,
     completed_at = None, created_at = 400, updated_at = 600\<rparr>"

definition ex_finished :: Book where
  "ex_finished = \<lparr>bk_id = 1, title = ''Dune'', author = ''Herbert'', total_pages = 200,
     current_page = 200, status = Some ''completed'', cover_url = None, genre = None,
     book_notes = None, rating = None, is_favorite = Some False, started_at = Some 500,
     completed_at = Some 900, created_at = 400, updated_at = 900\<rparr>"

definition ex_unread :: Book where
  "ex_unread = \<lparr>bk_id = 1, title = ''Dune'', author = ''Herbert'', total_pages = 200,
     current_page = 0, status = Some ''not_started'', cover_url = None, genre = None,
     book_notes = None, rating = None, is_favorite = Some False, started_at = None,
     completed_at = None, created_at = 400, updated_at = 400\<rparr>"

definition no_update :: BookUpdate where
  "no_update = \<lparr>upd_title = None, upd_author = None, upd_total_pages = None,
     upd_current_page = None, upd_status = None, upd_cover_url = None, upd_genre = None,
     upd_notes = None, upd_rating = None, upd_is_favorite = None\<rparr>"

definition ex_create :: BookCreate where
  "ex_create = \<lparr>bc_title = ''Dune'', bc_author = ''Herbert'', bc_total_pages = 200,
     bc_current_page = 50, bc_status = ''not_started'', bc_cover_url = None, bc_genre = None,
     bc_notes = None, bc_rating = None, bc_is_favorite = False\<rparr>"

text \<open>
  An update that gives the status \<^verbatim>\<open>completed\<close> together with the page 120, and the half-read
  book after it.
\<close>

definition ex_status_and_page :: BookUpdate where
  "ex_status_and_page =
     no_update\<lparr>upd_status := Some (Some ''completed''), upd_current_page := Some (Some 120)\<rparr>"

definition ex_reading_marked :: Book where
  "ex_reading_marked = ex_reading\<lparr>current_page := 120, status := Some ''completed'',
     completed_at := Some 1002, updated_at := 1004\<rparr>"

text \<open>An update that gives the page 120 and nothing else, and the finished book after it.\<close>

definition ex_page_only :: BookUpdate where
  "ex_page_only = no_update\<lparr>upd_current_page := Some (Some 120)\<rparr>"

definition ex_finished_reopened :: Book where
  "ex_finished_reopened = ex_finished\<lparr>current_page := 120, status := Some ''in_progress'',
     updated_at := 1004\<rparr>"

text \<open>An update that gives the page 120 and a new number of pages, 300.\<close>

definition ex_page_and_total :: BookUpdate where
  "ex_page_and_total =
     no_update\<lparr>upd_current_page := Some (Some 120), upd_total_pages := Some (Some 300)\<rparr>"

text \<open>A create request that leaves the status out and gives the page 50 of 200.\<close>

definition ex_request :: BookCreate_request where
  "ex_request = \<lparr>req_title = ''Dune'', req_author = ''Herbert'', req_total_pages = 200,
     req_current_page = Some 50, req_status = None, req_cover_url = None, req_genre = None,
     req_notes = None, req_rating = None, req_is_favorite = None\<rparr>"

text \<open>A valid \<^verbatim>\<open>BookCreate\<close> with the page 300 of 200.\<close>

definition ex_create_beyond :: BookCreate where
  "ex_create_beyond = ex_create\<lparr>bc_current_page := 300\<rparr>"

text \<open>An update that gives the page 500, and the half-read book of 200 pages after it.\<close>

definition ex_page_beyond :: BookUpdate where
  "ex_page_beyond = no_update\<lparr>upd_current_page := Some (Some 500)\<rparr>"

definition ex_reading_beyond :: Book where
  "ex_reading_beyond = ex_reading\<lparr>current_page := 500, status := Some ''completed'',
     completed_at := Some 1002, updated_at := 1004\<rparr>"

text \<open>
  An update that gives the status \<^verbatim>\<open>completed\<close> and a new number of pages, 300, and the
  half-read book of 200 pages after it.
\<close>

definition ex_completed_and_total :: BookUpdate where
  "ex_completed_and_total =
     no_update\<lparr>upd_status := Some (Some ''completed''), upd_total_pages := Some (Some 300)\<rparr>"

definition ex_reading_completed :: Book where
  "ex_reading_completed = ex_reading\<lparr>total_pages := 300, current_page := 200,
     status := Some ''completed'', completed_at := Some 1002, updated_at := 1004\<rparr>"

section \<open>The table\<close>

lemma get_book_Some_id: "get_book db i = Some b \<Longrightarrow> bk_id b = i"
  by (auto simp: get_book_def find_Some_iff)

lemma get_book_None_iff: "get_book db i = None \<longleftrightarrow> i \<notin> bk_id ` set db"
  by (auto simp: get_book_def find_None_iff)

lemma get_book_commit:
  "get_book db i = Some b \<Longrightarrow> bk_id b' = i \<Longrightarrow> get_book (commit db b') i = Some b'"
  unfolding get_book_def commit_def
  by (induction db) (auto split: if_splits)

lemma map_missing_id:
  "get_book db i = None \<Longrightarrow> map (\<lambda>r. if bk_id r = i then f r else r) db = db"
  by (induction db) (auto simp: get_book_def split: if_splits)

section \<open>update_book_progress\<close>

text \<open>
  Claim C4. For a book in the table, whatever its two timestamps were, a progress update
  with the page 0 returns the book with the status \<^verbatim>\<open>not_started\<close> and with \<^verbatim>\<open>started_at\<close> and
  \<^verbatim>\<open>completed_at\<close> cleared, and that is the row then stored. The number of pages of a stored
  book is positive (schemas.py, \<^verbatim>\<open>gt=0\<close>); the proof needs that it is not negative, since
  the requested page is first capped at it.
\<close>

theorem progress_zero_resets:
  assumes "get_book db book_id = Some b" and "0 \<le> total_pages b"
  shows "\<exists>db' b'. update_book_progress clk db book_id 0 = (db', Some b') \<and>
           get_book db' book_id = Some b' \<and>
           status b' = Some ''not_started'' \<and> started_at b' = None \<and> completed_at b' = None"
  using assms get_book_Some_id[OF assms(1)]
  by (simp add: update_book_progress_def progress_fields_def Let_def get_book_commit min_def)

theorem progress_zero_resets_witness:
  "get_book [ex_finished] 1 = Some ex_finished \<and> 0 \<le> total_pages ex_finished \<and>
   (\<exists>db' b'. update_book_progress ex_clock [ex_finished] 1 0 = (db', Some b') \<and>
      get_book db' 1 = Some b' \<and>
      status b' = Some ''not_started'' \<and> started_at b' = None \<and> completed_at b' = None)"
proof -
  have h1: "get_book [ex_finished] 1 = Some ex_finished"
    by (simp add: get_book_def ex_finished_def)
  have h2: "0 \<le> total_pages ex_finished"
    by (simp add: ex_finished_def)
  from progress_zero_resets[OF h1 h2] h1 h2 show ?thesis by blast
qed

text \<open>
  Claim C5. A progress update of a book in the table never fails: it returns the book,
  with the requested page brought into the range from 0 to the book's number of pages. When
  the requested page reaches the number of pages, the book is \<^verbatim>\<open>completed\<close>, its page is the
  number of pages, and both timestamps are set: each keeps its value if it had one and takes
  the clock's reading otherwise, so a missing \<^verbatim>\<open>started_at\<close> is filled in. The page of a
  \<^verbatim>\<open>ProgressUpdate\<close> is not negative (schemas.py, \<^verbatim>\<open>ge=0\<close>), and the number of pages of a
  stored book is positive.
\<close>

theorem progress_clamps:
  assumes "get_book db book_id = Some b" and "0 < total_pages b" and "ProgressUpdate_valid p"
  shows "\<exists>db' b'. update_book_progress clk db book_id p = (db', Some b') \<and>
           get_book db' book_id = Some b' \<and>
           total_pages b' = total_pages b \<and>
           current_page b' = max 0 (min p (total_pages b)) \<and>
           (total_pages b \<le> p \<longrightarrow>
              status b' = Some ''completed'' \<and> current_page b' = total_pages b \<and>
              started_at b' = Some (case started_at b of None \<Rightarrow> now_started clk | Some t \<Rightarrow> t) \<and>
              completed_at b' = Some (case completed_at b of None \<Rightarrow> now_completed clk | Some t \<Rightarrow> t))"
  using assms get_book_Some_id[OF assms(1)]
  by (auto simp add: update_book_progress_def progress_fields_def Let_def get_book_commit min_def max_def
      ProgressUpdate_valid_def split: option.splits)

theorem progress_clamps_witness:
  "get_book [ex_unread] 1 = Some ex_unread \<and> 0 < total_pages ex_unread \<and>
   ProgressUpdate_valid 500 \<and> total_pages ex_unread \<le> 500 \<and>
   (\<exists>db' b'. update_book_progress ex_clock [ex_unread] 1 500 = (db', Some b') \<and>
      get_book db' 1 = Some b' \<and> current_page b' = 200 \<and> total_pages b' = 200 \<and>
      status b' = Some ''completed'' \<and>
      started_at b' = Some 1001 \<and> completed_at b' = Some 1002)"
proof -
  have h1: "get_book [ex_unread] 1 = Some ex_unread"
    by (simp add: get_book_def ex_unread_def)
  have h2: "0 < total_pages ex_unread"
    by (simp add: ex_unread_def)
  have h3: "ProgressUpdate_valid 500"
    by (simp add: ProgressUpdate_valid_def)
  have h4: "total_pages ex_unread \<le> 500" "total_pages ex_unread = 200"
    "started_at ex_unread = None" "completed_at ex_unread = None"
    "now_started ex_clock = 1001" "now_completed ex_clock = 1002"
    by (simp_all add: ex_unread_def ex_clock_def)
  from progress_clamps[OF h1 h2 h3, of ex_clock] obtain db' b' where
    r: "update_book_progress ex_clock [ex_unread] 1 500 = (db', Some b')"
      "get_book db' 1 = Some b'" "total_pages b' = total_pages ex_unread"
      "total_pages ex_unread \<le> 500 \<longrightarrow>
         status b' = Some ''completed'' \<and> current_page b' = total_pages ex_unread \<and>
         started_at b' =
           Some (case started_at ex_unread of None \<Rightarrow> now_started ex_clock | Some t \<Rightarrow> t) \<and>
         completed_at b' =
           Some (case completed_at ex_unread of None \<Rightarrow> now_completed ex_clock | Some t \<Rightarrow> t)"
    by blast
  from r(4) h4 have "status b' = Some ''completed''" "current_page b' = 200"
    "started_at b' = Some 1001" "completed_at b' = Some 1002" by simp_all
  with r(1,2,3) h1 h2 h3 h4 show ?thesis by auto
qed

text \<open>
  The three branches of \<^verbatim>\<open>update_book_progress\<close>, each as one update of the row.
\<close>

lemma progress_fields_zero:
  "min p (total_pages b) = 0 \<Longrightarrow>
   progress_fields clk p b =
     b\<lparr>current_page := 0, status := Some ''not_started'', started_at := None,
       completed_at := None, updated_at := now_updated clk\<rparr>"
  by (simp add: progress_fields_def Let_def)

lemma progress_fields_below:
  "min p (total_pages b) \<noteq> 0 \<Longrightarrow> min p (total_pages b) < total_pages b \<Longrightarrow>
   progress_fields clk p b =
     b\<lparr>current_page := min p (total_pages b), status := Some ''in_progress'',
       started_at := Some (case started_at b of None \<Rightarrow> now_started clk | Some t \<Rightarrow> t),
       completed_at := None, updated_at := now_updated clk\<rparr>"
  by (cases "started_at b") (simp_all add: progress_fields_def Let_def)

lemma progress_fields_full:
  "min p (total_pages b) \<noteq> 0 \<Longrightarrow> \<not> min p (total_pages b) < total_pages b \<Longrightarrow>
   progress_fields clk p b =
     b\<lparr>current_page := min p (total_pages b), status := Some ''completed'',
       started_at := Some (case started_at b of None \<Rightarrow> now_started clk | Some t \<Rightarrow> t),
       completed_at := Some (case completed_at b of None \<Rightarrow> now_completed clk | Some t \<Rightarrow> t),
       updated_at := now_updated clk\<rparr>"
  by (cases "started_at b"; cases "completed_at b") (simp_all add: progress_fields_def Let_def)

lemma progress_fields_id: "bk_id (progress_fields clk p b) = bk_id b"
  by (simp add: progress_fields_def Let_def)

lemma progress_fields_total: "total_pages (progress_fields clk p b) = total_pages b"
  by (simp add: progress_fields_def Let_def)

lemma progress_fields_again:
  "progress_fields clk' p (progress_fields clk p b) =
     (progress_fields clk p b)\<lparr>updated_at := now_updated clk'\<rparr>"
proof -
  let ?b1 = "progress_fields clk p b"
  have t: "total_pages ?b1 = total_pages b" by (rule progress_fields_total)
  consider (zero) "min p (total_pages b) = 0"
    | (below) "min p (total_pages b) \<noteq> 0" "min p (total_pages b) < total_pages b"
    | (full) "min p (total_pages b) \<noteq> 0" "\<not> min p (total_pages b) < total_pages b"
    by blast
  then show ?thesis
  proof cases
    case zero
    then have z1: "min p (total_pages ?b1) = 0" by (simp add: t)
    show ?thesis
      unfolding progress_fields_zero[OF z1, of clk']
      unfolding progress_fields_zero[OF zero, of clk]
      by simp
  next
    case below
    then have b1: "min p (total_pages ?b1) \<noteq> 0" "min p (total_pages ?b1) < total_pages ?b1"
      by (simp_all add: t)
    show ?thesis
      unfolding progress_fields_below[OF b1, of clk']
      unfolding progress_fields_below[OF below, of clk]
      by simp
  next
    case full
    then have f1: "min p (total_pages ?b1) \<noteq> 0" "\<not> min p (total_pages ?b1) < total_pages ?b1"
      by (simp_all add: t)
    show ?thesis
      unfolding progress_fields_full[OF f1, of clk']
      unfolding progress_fields_full[OF full, of clk]
      by simp
  qed
qed

lemma update_book_progress_Some:
  "get_book db i = Some b \<Longrightarrow>
   update_book_progress clk db i p = (commit db (progress_fields clk p b), Some (progress_fields clk p b))"
  by (simp add: update_book_progress_def Let_def)

lemma commit_same_id:
  "bk_id b1 = i \<Longrightarrow>
   commit (commit db b1) (f b1) = map (\<lambda>r. if bk_id r = i then f r else r) (commit db b1)"
  if "bk_id (f b1) = bk_id b1"
  using that unfolding commit_def by (induction db) auto

text \<open>
  Claim C6. A progress update applied a second time with the same page changes nothing but
  \<^verbatim>\<open>updated_at\<close>: the session after the second call is the session after the first with the
  \<^verbatim>\<open>updated_at\<close> of the book replaced by the second call's reading, and the book returned
  differs from the first call's in that field only. This holds for every session,
  identifier and page, and for any two readings of the clock.
\<close>

theorem progress_idempotent:
  "update_book_progress clk' (fst (update_book_progress clk db i p)) i p =
     (map (\<lambda>r. if bk_id r = i then r\<lparr>updated_at := now_updated clk'\<rparr> else r)
          (fst (update_book_progress clk db i p)),
      map_option (\<lambda>r. r\<lparr>updated_at := now_updated clk'\<rparr>)
          (snd (update_book_progress clk db i p)))"
proof (cases "get_book db i")
  case None
  then show ?thesis by (simp add: update_book_progress_def map_missing_id)
next
  case (Some b)
  define b1 where "b1 = progress_fields clk p b"
  have i: "bk_id b = i" by (rule get_book_Some_id[OF Some])
  have i1: "bk_id b1 = i" by (simp add: b1_def progress_fields_id i)
  have r: "update_book_progress clk db i p = (commit db b1, Some b1)"
    unfolding b1_def by (rule update_book_progress_Some[OF Some])
  have g1: "get_book (commit db b1) i = Some b1"
    by (rule get_book_commit[OF Some i1])
  have again: "progress_fields clk' p b1 = b1\<lparr>updated_at := now_updated clk'\<rparr>"
    unfolding b1_def by (rule progress_fields_again)
  have r2: "update_book_progress clk' (commit db b1) i p =
      (commit (commit db b1) (b1\<lparr>updated_at := now_updated clk'\<rparr>),
       Some (b1\<lparr>updated_at := now_updated clk'\<rparr>))"
    using update_book_progress_Some[OF g1, of clk' p] by (simp only: again)
  have c: "commit (commit db b1) (b1\<lparr>updated_at := now_updated clk'\<rparr>) =
      map (\<lambda>r. if bk_id r = i then r\<lparr>updated_at := now_updated clk'\<rparr> else r) (commit db b1)"
    by (rule commit_same_id[where f="\<lambda>r. r\<lparr>updated_at := now_updated clk'\<rparr>", OF _ i1]) simp
  show ?thesis by (simp only: r fst_conv snd_conv r2 c option.map)
qed

section \<open>completed_at and a page below the number of pages\<close>

text \<open>
  Claim C2 says that after every operation a page below the number of pages means that
  \<^verbatim>\<open>completed_at\<close> is unset. \<^verbatim>\<open>update_book\<close> takes a status and a page that are both given as
  they are (the derivation of lines 106 to 115 is guarded by the absence of the status, the
  forcing of the page in line 97 by the absence of the page): the status \<^verbatim>\<open>completed\<close> sets
  \<^verbatim>\<open>completed_at\<close>, and the page 120 of 200 stays.
\<close>

theorem update_status_and_page_taken_as_given:
  "update_book ex_clock [ex_reading] 1 ex_status_and_page =
     Inr ([ex_reading_marked], Some ex_reading_marked) \<and>
   current_page ex_reading_marked < total_pages ex_reading_marked \<and>
   completed_at ex_reading_marked = Some 1002"
  by (simp add: update_book_def get_book_def status_changes_def progress_changes_def
      setattr_fields_def commit_def Let_def ex_reading_def ex_clock_def no_update_def
      ex_status_and_page_def ex_reading_marked_def)

text \<open>
  The same function, given the page alone, derives the status \<^verbatim>\<open>in_progress\<close> and leaves
  \<^verbatim>\<open>completed_at\<close> as it was, where \<^verbatim>\<open>update_book_progress\<close> clears it (line 148).
\<close>

lemma update_page_only_keeps_completed_at:
  "update_book ex_clock [ex_finished] 1 ex_page_only =
     Inr ([ex_finished_reopened], Some ex_finished_reopened) \<and>
   status ex_finished_reopened = Some ''in_progress'' \<and>
   current_page ex_finished_reopened < total_pages ex_finished_reopened \<and>
   completed_at ex_finished_reopened = Some 900"
  by (simp add: update_book_def get_book_def status_changes_def progress_changes_def
      setattr_fields_def commit_def Let_def ex_finished_def ex_clock_def no_update_def
      ex_page_only_def ex_finished_reopened_def mark_in_progress_def)

lemma progress_fields_completed_at:
  "current_page (progress_fields clk p b) < total_pages (progress_fields clk p b) \<Longrightarrow>
   completed_at (progress_fields clk p b) = None"
  by (simp add: progress_fields_def Let_def split: if_splits)

lemma create_book_completed_at:
  "current_page (snd (create_book clk db c)) < total_pages (snd (create_book clk db c)) \<Longrightarrow>
   completed_at (snd (create_book clk db c)) = None"
  by (simp add: create_book_def Let_def split: if_splits)

text \<open>
  Claim C2, for the two operations that keep it. After a progress update of a book in the
  table, a page below the number of pages means that \<^verbatim>\<open>completed_at\<close> is unset, whatever it
  was before; and a book just created with a page below its number of pages has
  \<^verbatim>\<open>completed_at\<close> unset.
\<close>

theorem completed_at_unset_below_total:
  "(get_book db i = Some b \<longrightarrow>
      (\<exists>db' b'. update_book_progress clk db i p = (db', Some b') \<and> get_book db' i = Some b' \<and>
          (current_page b' < total_pages b' \<longrightarrow> completed_at b' = None))) \<and>
   (current_page (snd (create_book clk db c)) < total_pages (snd (create_book clk db c)) \<longrightarrow>
      completed_at (snd (create_book clk db c)) = None)"
proof (intro conjI impI)
  assume g: "get_book db i = Some b"
  have i: "bk_id (progress_fields clk p b) = i"
    by (simp add: progress_fields_id get_book_Some_id[OF g])
  show "\<exists>db' b'. update_book_progress clk db i p = (db', Some b') \<and> get_book db' i = Some b' \<and>
          (current_page b' < total_pages b' \<longrightarrow> completed_at b' = None)"
    using update_book_progress_Some[OF g, of clk p] get_book_commit[OF g i]
      progress_fields_completed_at[of clk p b]
    by blast
next
  assume "current_page (snd (create_book clk db c)) < total_pages (snd (create_book clk db c))"
  then show "completed_at (snd (create_book clk db c)) = None"
    by (rule create_book_completed_at)
qed

theorem completed_at_unset_below_total_witness:
  "get_book [ex_finished] 1 = Some ex_finished \<and>
   (\<exists>db' b'. update_book_progress ex_clock [ex_finished] 1 120 = (db', Some b') \<and>
       get_book db' 1 = Some b' \<and> current_page b' < total_pages b' \<and> completed_at b' = None) \<and>
   current_page (snd (create_book ex_clock [ex_finished] ex_create))
     < total_pages (snd (create_book ex_clock [ex_finished] ex_create)) \<and>
   completed_at (snd (create_book ex_clock [ex_finished] ex_create)) = None"
proof -
  have h1: "get_book [ex_finished] 1 = Some ex_finished"
    by (simp add: get_book_def ex_finished_def)
  have h2: "current_page (snd (create_book ex_clock [ex_finished] ex_create))
      < total_pages (snd (create_book ex_clock [ex_finished] ex_create))"
    by (simp add: create_book_def ex_create_def Let_def)
  note t = completed_at_unset_below_total[of "[ex_finished]" 1 ex_finished ex_clock 120 ex_create]
  from t h1 obtain db' b' where
    r: "update_book_progress ex_clock [ex_finished] 1 120 = (db', Some b')"
      "get_book db' 1 = Some b'" "current_page b' < total_pages b' \<longrightarrow> completed_at b' = None"
    by blast
  from r(1) have "b' = progress_fields ex_clock 120 ex_finished"
    by (simp add: update_book_progress_Some[OF h1])
  then have "current_page b' < total_pages b'"
    by (simp add: progress_fields_def ex_finished_def Let_def)
  with r have e: "\<exists>db' b'. update_book_progress ex_clock [ex_finished] 1 120 = (db', Some b') \<and>
       get_book db' 1 = Some b' \<and> current_page b' < total_pages b' \<and> completed_at b' = None"
    by blast
  from t h2 have "completed_at (snd (create_book ex_clock [ex_finished] ex_create)) = None"
    by blast
  with h1 h2 e show ?thesis by blast
qed

section \<open>update_book: the status derived from the page\<close>

lemma status_changes_absent: "upd_status u = None \<Longrightarrow> status_changes clk u b = b"
  by (simp add: status_changes_def)

lemma progress_changes_derived:
  assumes "upd_status u = None" and "upd_current_page u = Some (Some p)"
    and "upd_total_pages u \<noteq> Some None"
  shows "progress_changes clk u b =
     Inr (if p = 0 then b\<lparr>status := Some ''not_started''\<rparr>
          else if 0 < p \<and> p < (case upd_total_pages u of Some (Some t) \<Rightarrow> t | _ \<Rightarrow> total_pages b)
          then mark_in_progress clk b
          else if (case upd_total_pages u of Some (Some t) \<Rightarrow> t | _ \<Rightarrow> total_pages b) \<le> p
          then mark_completed clk b
          else b)"
  using assms by (simp add: progress_changes_def Let_def split: option.splits)

lemma setattr_fields_kept:
  assumes "upd_current_page u = Some (Some p)" and "upd_status u = None"
    and "upd_total_pages u \<noteq> Some None"
    and "upd_title u \<noteq> Some None" and "upd_author u \<noteq> Some None"
  shows "\<exists>b'. setattr_fields u b = Inr b' \<and> bk_id b' = bk_id b \<and> current_page b' = p \<and>
           total_pages b' = (case upd_total_pages u of Some (Some t) \<Rightarrow> t | _ \<Rightarrow> total_pages b) \<and>
           status b' = status b \<and> started_at b' = started_at b \<and> completed_at b' = completed_at b"
  using assms by (simp add: setattr_fields_def)

lemma update_book_Inr:
  assumes "get_book db i = Some b"
    and "progress_changes clk u (status_changes clk u b) = Inr b1"
    and "setattr_fields u b1 = Inr b2"
  shows "update_book clk db i u =
     Inr (commit db (b2\<lparr>updated_at := now_updated clk\<rparr>), Some (b2\<lparr>updated_at := now_updated clk\<rparr>))"
  using assms by (simp add: update_book_def Let_def)

lemma BookUpdate_valid_total_pages:
  "BookUpdate_valid u \<Longrightarrow> upd_total_pages u = Some (Some t) \<Longrightarrow> 0 < t"
  by (simp add: BookUpdate_valid_def field_ok_def)

lemma update_page_aux:
  assumes g: "get_book db book_id = Some b"
    and st: "upd_status u = None"
    and cp: "upd_current_page u = Some (Some p)"
    and tp: "upd_total_pages u \<noteq> Some None"
    and ti: "upd_title u \<noteq> Some None" and au: "upd_author u \<noteq> Some None"
    and T: "T = (case upd_total_pages u of Some (Some t) \<Rightarrow> t | _ \<Rightarrow> total_pages b)"
    and b1: "b1 = (if p = 0 then b\<lparr>status := Some ''not_started''\<rparr>
          else if 0 < p \<and> p < T then mark_in_progress clk b
          else if T \<le> p then mark_completed clk b else b)"
  shows "\<exists>b2. update_book clk db book_id u =
            Inr (commit db (b2\<lparr>updated_at := now_updated clk\<rparr>), Some (b2\<lparr>updated_at := now_updated clk\<rparr>)) \<and>
           get_book (commit db (b2\<lparr>updated_at := now_updated clk\<rparr>)) book_id =
             Some (b2\<lparr>updated_at := now_updated clk\<rparr>) \<and>
           current_page b2 = p \<and> total_pages b2 = T \<and> status b2 = status b1 \<and>
           started_at b2 = started_at b1 \<and> completed_at b2 = completed_at b1"
proof -
  have pc: "progress_changes clk u (status_changes clk u b) = Inr b1"
    unfolding status_changes_absent[OF st] b1 T
    by (rule progress_changes_derived[OF st cp tp])
  from setattr_fields_kept[OF cp st tp ti au, of b1] obtain b2 where
    sf: "setattr_fields u b1 = Inr b2" and id2: "bk_id b2 = bk_id b1" and
    f: "current_page b2 = p"
      "total_pages b2 = (case upd_total_pages u of Some (Some t) \<Rightarrow> t | _ \<Rightarrow> total_pages b1)"
      "status b2 = status b1" "started_at b2 = started_at b1" "completed_at b2 = completed_at b1"
    by blast
  have t1: "total_pages b1 = total_pages b"
    by (simp add: b1 mark_in_progress_def mark_completed_def Let_def)
  have id1: "bk_id b1 = book_id"
    using get_book_Some_id[OF g]
    by (simp add: b1 mark_in_progress_def mark_completed_def Let_def)
  have r: "update_book clk db book_id u =
      Inr (commit db (b2\<lparr>updated_at := now_updated clk\<rparr>), Some (b2\<lparr>updated_at := now_updated clk\<rparr>))"
    by (rule update_book_Inr[OF g pc sf])
  have gb: "get_book (commit db (b2\<lparr>updated_at := now_updated clk\<rparr>)) book_id =
      Some (b2\<lparr>updated_at := now_updated clk\<rparr>)"
    by (rule get_book_commit[OF g]) (simp add: id2 id1)
  have "total_pages b2 = T" by (simp only: f(2) t1 T)
  with r gb f show ?thesis by blast
qed

text \<open>
  Claim C7. An update of a book in the table that gives a page and no status derives the
  status from the page given and from the number of pages \<open>T\<close>, which is the number given in
  the update when there is one and the book's own otherwise. The page 0 gives
  \<^verbatim>\<open>not_started\<close> and leaves both timestamps; a page above 0 and below \<open>T\<close> gives
  \<^verbatim>\<open>in_progress\<close>, with \<^verbatim>\<open>started_at\<close> set to the clock's reading if it was unset; a page of
  \<open>T\<close> or more gives \<^verbatim>\<open>completed\<close>, with \<^verbatim>\<open>completed_at\<close> set to the clock's reading if it was
  unset. The update is a validated \<^verbatim>\<open>BookUpdate\<close>, the stored book has a positive number of
  pages, and none of the three columns that are not nullable is sent as \<^verbatim>\<open>null\<close> (the commit
  raises then).
\<close>

theorem update_page_derives_status:
  assumes "get_book db book_id = Some b" and "0 < total_pages b"
    and "BookUpdate_valid u"
    and "upd_status u = None"
    and "upd_current_page u = Some (Some p)"
    and "upd_total_pages u \<noteq> Some None"
    and "upd_title u \<noteq> Some None" and "upd_author u \<noteq> Some None"
    and "T = (case upd_total_pages u of Some (Some t) \<Rightarrow> t | _ \<Rightarrow> total_pages b)"
  shows "\<exists>db' b'. update_book clk db book_id u = Inr (db', Some b') \<and>
           get_book db' book_id = Some b' \<and>
           current_page b' = p \<and> total_pages b' = T \<and>
           (p = 0 \<longrightarrow> status b' = Some ''not_started'' \<and>
                started_at b' = started_at b \<and> completed_at b' = completed_at b) \<and>
           (0 < p \<and> p < T \<longrightarrow> status b' = Some ''in_progress'' \<and>
                started_at b' = Some (case started_at b of None \<Rightarrow> now_started clk | Some s \<Rightarrow> s) \<and>
                completed_at b' = completed_at b) \<and>
           (T \<le> p \<longrightarrow> status b' = Some ''completed'' \<and>
                completed_at b' = Some (case completed_at b of None \<Rightarrow> now_completed clk | Some s \<Rightarrow> s) \<and>
                started_at b' = started_at b)"
proof -
  have Tpos: "0 < T"
    using assms(2) BookUpdate_valid_total_pages[OF assms(3)] assms(9)
    by (simp split: option.splits)
  define b1 where "b1 = (if p = 0 then b\<lparr>status := Some ''not_started''\<rparr>
          else if 0 < p \<and> p < T then mark_in_progress clk b
          else if T \<le> p then mark_completed clk b else b)"
  from update_page_aux[OF assms(1,4,5,6,7,8,9) b1_def] obtain b2 where
    r: "update_book clk db book_id u =
          Inr (commit db (b2\<lparr>updated_at := now_updated clk\<rparr>), Some (b2\<lparr>updated_at := now_updated clk\<rparr>))"
    and g: "get_book (commit db (b2\<lparr>updated_at := now_updated clk\<rparr>)) book_id =
          Some (b2\<lparr>updated_at := now_updated clk\<rparr>)"
    and f: "current_page b2 = p" "total_pages b2 = T" "status b2 = status b1"
      "started_at b2 = started_at b1" "completed_at b2 = completed_at b1"
    by blast
  define b' where "b' = b2\<lparr>updated_at := now_updated clk\<rparr>"
  have fb: "current_page b' = p" "total_pages b' = T" "status b' = status b1"
      "started_at b' = started_at b1" "completed_at b' = completed_at b1"
    by (simp_all add: b'_def f)
  have c0: "p = 0 \<longrightarrow> status b' = Some ''not_started'' \<and>
                started_at b' = started_at b \<and> completed_at b' = completed_at b"
    by (simp add: fb b1_def)
  have c1: "0 < p \<and> p < T \<longrightarrow> status b' = Some ''in_progress'' \<and>
                started_at b' = Some (case started_at b of None \<Rightarrow> now_started clk | Some s \<Rightarrow> s) \<and>
                completed_at b' = completed_at b"
    by (cases "started_at b") (simp_all add: fb b1_def mark_in_progress_def Let_def)
  have c2: "T \<le> p \<longrightarrow> status b' = Some ''completed'' \<and>
                completed_at b' = Some (case completed_at b of None \<Rightarrow> now_completed clk | Some s \<Rightarrow> s) \<and>
                started_at b' = started_at b"
    using Tpos by (cases "completed_at b") (simp_all add: fb b1_def mark_completed_def Let_def)
  show ?thesis
    apply (rule exI[of _ "commit db b'"])
    apply (rule exI[of _ "b'"])
    apply (intro conjI)
          apply (simp only: b'_def r)
         apply (simp only: b'_def g)
        apply (rule fb(1))
       apply (rule fb(2))
      apply (rule c0)
     apply (rule c1)
    apply (rule c2)
    done
qed

theorem update_page_derives_status_witness:
  "get_book [ex_unread] 1 = Some ex_unread \<and> 0 < total_pages ex_unread \<and>
   BookUpdate_valid ex_page_and_total \<and> upd_status ex_page_and_total = None \<and>
   upd_current_page ex_page_and_total = Some (Some 120) \<and>
   upd_total_pages ex_page_and_total = Some (Some 300) \<and>
   upd_title ex_page_and_total = None \<and> upd_author ex_page_and_total = None \<and>
   (\<exists>db' b'. update_book ex_clock [ex_unread] 1 ex_page_and_total = Inr (db', Some b') \<and>
      get_book db' 1 = Some b' \<and> current_page b' = 120 \<and> total_pages b' = 300 \<and>
      status b' = Some ''in_progress'' \<and> started_at b' = Some 1001 \<and> completed_at b' = None)"
proof -
  have h1: "get_book [ex_unread] 1 = Some ex_unread"
    by (simp add: get_book_def ex_unread_def)
  have h2: "0 < total_pages ex_unread"
    by (simp add: ex_unread_def)
  have h3: "BookUpdate_valid ex_page_and_total"
    by (simp add: BookUpdate_valid_def field_ok_def ex_page_and_total_def no_update_def)
  have h4: "upd_status ex_page_and_total = None"
    and h5: "upd_current_page ex_page_and_total = Some (Some 120)"
    and h6: "upd_total_pages ex_page_and_total = Some (Some 300)"
    and h7: "upd_title ex_page_and_total = None"
    and h8: "upd_author ex_page_and_total = None"
    by (simp_all add: ex_page_and_total_def no_update_def)
  have n6: "upd_total_pages ex_page_and_total \<noteq> Some None"
    and n7: "upd_title ex_page_and_total \<noteq> Some None"
    and n8: "upd_author ex_page_and_total \<noteq> Some None"
    by (simp_all add: h6 h7 h8)
  have T: "(300::int) = (case upd_total_pages ex_page_and_total of
      Some (Some t) \<Rightarrow> t | _ \<Rightarrow> total_pages ex_unread)"
    by (simp add: h6)
  have v: "started_at ex_unread = None" "completed_at ex_unread = None"
    "now_started ex_clock = 1001"
    by (simp_all add: ex_unread_def ex_clock_def)
  from update_page_derives_status[OF h1 h2 h3 h4 h5 n6 n7 n8 T, of ex_clock]
  obtain db' b' where
    r: "update_book ex_clock [ex_unread] 1 ex_page_and_total = Inr (db', Some b')"
      "get_book db' 1 = Some b'" "current_page b' = 120" "total_pages b' = 300"
    and c: "(0::int) < 120 \<and> (120::int) < 300 \<longrightarrow> status b' = Some ''in_progress'' \<and>
        started_at b' = Some (case started_at ex_unread of None \<Rightarrow> now_started ex_clock | Some s \<Rightarrow> s) \<and>
        completed_at b' = completed_at ex_unread"
    by blast
  from c v have "status b' = Some ''in_progress''" "started_at b' = Some 1001"
    "completed_at b' = None" by simp_all
  with r h1 h2 h3 h4 h5 h6 h7 h8 show ?thesis by blast
qed

section \<open>Identifiers that are not in the table\<close>

text \<open>
  Claim C8. For an identifier that no row of the table has, \<^verbatim>\<open>get_book\<close>, \<^verbatim>\<open>update_book\<close>,
  \<^verbatim>\<open>update_book_progress\<close> and \<^verbatim>\<open>update_book_notes\<close> return \<^verbatim>\<open>None\<close> (which main.py turns into
  the answer 404), \<^verbatim>\<open>delete_book\<close> returns \<^verbatim>\<open>False\<close>, and each leaves the session as it was.
  For an identifier in the table, \<^verbatim>\<open>delete_book\<close> returns \<^verbatim>\<open>True\<close>, the rows of the other
  identifiers stay as they were, in order, and the identifier is no longer found.
\<close>

theorem missing_id_not_found:
  "(book_id \<notin> bk_id ` set db \<longrightarrow>
      get_book db book_id = None \<and>
      update_book clk db book_id u = Inr (db, None) \<and>
      update_book_progress clk db book_id p = (db, None) \<and>
      update_book_notes clk db book_id s = (db, None) \<and>
      delete_book db book_id = (db, False)) \<and>
   (book_id \<in> bk_id ` set db \<longrightarrow>
      delete_book db book_id = (filter (\<lambda>r. bk_id r \<noteq> book_id) db, True) \<and>
      get_book (filter (\<lambda>r. bk_id r \<noteq> book_id) db) book_id = None)"
proof (intro conjI impI)
  assume a: "book_id \<notin> bk_id ` set db"
  then have n: "get_book db book_id = None" by (simp add: get_book_None_iff)
  show "get_book db book_id = None" by (rule n)
  show "update_book clk db book_id u = Inr (db, None)" by (simp add: update_book_def n)
  show "update_book_progress clk db book_id p = (db, None)"
    by (simp add: update_book_progress_def n)
  show "update_book_notes clk db book_id s = (db, None)" by (simp add: update_book_notes_def n)
  show "delete_book db book_id = (db, False)" by (simp add: delete_book_def n)
next
  assume "book_id \<in> bk_id ` set db"
  then obtain b where g: "get_book db book_id = Some b"
    using get_book_None_iff[of db book_id] by (cases "get_book db book_id") auto
  have i: "bk_id b = book_id" by (rule get_book_Some_id[OF g])
  show "delete_book db book_id = (filter (\<lambda>r. bk_id r \<noteq> book_id) db, True)"
    by (simp add: delete_book_def g i)
  show "get_book (filter (\<lambda>r. bk_id r \<noteq> book_id) db) book_id = None"
    by (auto simp add: get_book_None_iff)
qed

theorem missing_id_not_found_witness:
  "2 \<notin> bk_id ` set [ex_reading] \<and>
   get_book [ex_reading] 2 = None \<and>
   update_book ex_clock [ex_reading] 2 ex_page_only = Inr ([ex_reading], None) \<and>
   update_book_progress ex_clock [ex_reading] 2 120 = ([ex_reading], None) \<and>
   update_book_notes ex_clock [ex_reading] 2 ''spice'' = ([ex_reading], None) \<and>
   delete_book [ex_reading] 2 = ([ex_reading], False) \<and>
   1 \<in> bk_id ` set [ex_reading] \<and>
   delete_book [ex_reading] 1 = ([], True) \<and> get_book [] 1 = None"
proof -
  have h1: "2 \<notin> bk_id ` set [ex_reading]" and h2: "1 \<in> bk_id ` set [ex_reading]"
    by (simp_all add: ex_reading_def)
  have f: "filter (\<lambda>r. bk_id r \<noteq> 1) [ex_reading] = []"
    by (simp add: ex_reading_def)
  from missing_id_not_found[of 2 "[ex_reading]" ex_clock ex_page_only 120 "''spice''"] h1
  have a: "get_book [ex_reading] 2 = None"
    "update_book ex_clock [ex_reading] 2 ex_page_only = Inr ([ex_reading], None)"
    "update_book_progress ex_clock [ex_reading] 2 120 = ([ex_reading], None)"
    "update_book_notes ex_clock [ex_reading] 2 ''spice'' = ([ex_reading], None)"
    "delete_book [ex_reading] 2 = ([ex_reading], False)"
    by blast+
  from missing_id_not_found[of 1 "[ex_reading]" ex_clock ex_page_only 120 "''spice''"] h2
  have b: "delete_book [ex_reading] 1 = ([], True)" "get_book [] 1 = None"
    unfolding f by blast+
  from h1 h2 a b show ?thesis by blast
qed

section \<open>create_book\<close>

text \<open>
  Claim C10. \<^verbatim>\<open>create_book\<close> does not derive the status from the page. For a request that
  passes validation, with a page above 0 and below the number of pages, and with the status
  left out (the default \<^verbatim>\<open>not_started\<close>) or given as \<^verbatim>\<open>not_started\<close>, the book created has
  the status \<^verbatim>\<open>not_started\<close>, no \<^verbatim>\<open>started_at\<close>, no \<^verbatim>\<open>completed_at\<close>, and the page as given; it
  is the row added to the table.
\<close>

theorem create_keeps_not_started:
  assumes "BookCreate_parse r = Inr c"
    and "req_status r = None \<or> req_status r = Some ''not_started''"
    and "req_current_page r = Some p" and "0 < p" and "p < req_total_pages r"
  shows "status (snd (create_book clk db c)) = Some ''not_started'' \<and>
         started_at (snd (create_book clk db c)) = None \<and>
         completed_at (snd (create_book clk db c)) = None \<and>
         current_page (snd (create_book clk db c)) = p \<and>
         total_pages (snd (create_book clk db c)) = req_total_pages r \<and>
         fst (create_book clk db c) = db @ [snd (create_book clk db c)]"
proof -
  from assms(1) have c: "bc_status c = (case req_status r of None \<Rightarrow> ''not_started'' | Some v \<Rightarrow> v)"
    "bc_current_page c = (case req_current_page r of None \<Rightarrow> 0 | Some v \<Rightarrow> v)"
    "bc_total_pages c = req_total_pages r"
    by (auto simp add: BookCreate_parse_def Let_def split: if_splits)
  from c(1) assms(2) have s: "bc_status c = ''not_started''" by auto
  from c(2) assms(3) have p: "bc_current_page c = p" by simp
  show ?thesis by (simp add: create_book_def Let_def s p c(3))
qed

theorem create_keeps_not_started_witness:
  "BookCreate_parse ex_request = Inr ex_create \<and>
   (req_status ex_request = None \<or> req_status ex_request = Some ''not_started'') \<and>
   req_current_page ex_request = Some 50 \<and> (0::int) < 50 \<and> 50 < req_total_pages ex_request \<and>
   status (snd (create_book ex_clock [] ex_create)) = Some ''not_started'' \<and>
   started_at (snd (create_book ex_clock [] ex_create)) = None \<and>
   current_page (snd (create_book ex_clock [] ex_create)) = 50 \<and>
   total_pages (snd (create_book ex_clock [] ex_create)) = 200"
proof -
  have h1: "BookCreate_parse ex_request = Inr ex_create"
    by (simp add: BookCreate_parse_def BookCreate_valid_def allowed_statuses_def
        max_length_ok_def rating_ok_def ex_request_def ex_create_def Let_def)
  have h2: "req_status ex_request = None \<or> req_status ex_request = Some ''not_started''"
    and h3: "req_current_page ex_request = Some 50"
    and h5: "50 < req_total_pages ex_request" and h6: "req_total_pages ex_request = 200"
    by (simp_all add: ex_request_def)
  have h4: "(0::int) < 50" by simp
  from create_keeps_not_started[OF h1 h2 h3 h4 h5, of ex_clock "[]"] h1 h2 h3 h4 h5 h6
  show ?thesis by simp
qed

section \<open>The page and the number of pages\<close>

text \<open>
  Claim C1 says that after every operation the page is between 0 and the number of pages.
  \<^verbatim>\<open>update_book_progress\<close> caps the page (line 136); \<^verbatim>\<open>create_book\<close>
  and \<^verbatim>\<open>update_book\<close> store the page they are given. A valid \<^verbatim>\<open>BookCreate\<close> with the page 300
  of 200 is stored with that page, and a valid update that gives the page 500 to a book of
  200 pages stores 500. The validator \<^verbatim>\<open>validate_current_page\<close> of schemas.py, whose comment
  announces the comparison with \<^verbatim>\<open>total_pages\<close>, returns its argument.
\<close>

theorem create_and_update_store_page_beyond_total:
  "BookCreate_valid ex_create_beyond \<and>
   current_page (snd (create_book ex_clock [] ex_create_beyond)) = 300 \<and>
   total_pages (snd (create_book ex_clock [] ex_create_beyond)) = 200 \<and>
   BookUpdate_valid ex_page_beyond \<and>
   update_book ex_clock [ex_reading] 1 ex_page_beyond =
     Inr ([ex_reading_beyond], Some ex_reading_beyond) \<and>
   current_page ex_reading_beyond = 500 \<and> total_pages ex_reading_beyond = 200"
  by (simp add: BookCreate_valid_def allowed_statuses_def max_length_ok_def rating_ok_def
      BookUpdate_valid_def field_ok_def create_book_def update_book_def get_book_def
      status_changes_def progress_changes_def setattr_fields_def commit_def mark_completed_def
      Let_def ex_create_beyond_def ex_create_def ex_page_beyond_def no_update_def
      ex_reading_beyond_def ex_reading_def ex_clock_def)

section \<open>update_book: the status completed\<close>

text \<open>
  Claim C3 says that an update that gives the status \<^verbatim>\<open>completed\<close> to a book that does not
  have it, and gives no page, sets \<^verbatim>\<open>completed_at\<close> to the clock's reading and makes the page
  equal to the number of pages. Line 98 takes the number of pages of the stored book, and
  line 119 then stores the number of pages given in the update: a half-read book of 200
  pages, given the status \<^verbatim>\<open>completed\<close> and 300 pages, ends \<^verbatim>\<open>completed\<close> with the page 200 of
  300.
\<close>

theorem update_completed_with_new_total:
  "BookUpdate_valid ex_completed_and_total \<and>
   upd_current_page ex_completed_and_total = None \<and>
   status ex_reading = Some ''in_progress'' \<and>
   update_book ex_clock [ex_reading] 1 ex_completed_and_total =
     Inr ([ex_reading_completed], Some ex_reading_completed) \<and>
   status ex_reading_completed = Some ''completed'' \<and>
   current_page ex_reading_completed = 200 \<and> total_pages ex_reading_completed = 300"
  by (simp add: BookUpdate_valid_def field_ok_def allowed_statuses_def update_book_def
      get_book_def status_changes_def progress_changes_def setattr_fields_def commit_def
      Let_def ex_completed_and_total_def no_update_def ex_reading_completed_def ex_reading_def
      ex_clock_def)

text \<open>
  What line 98 does in general: the page becomes the number of pages the book had, which is
  the number of pages after the update when the update gives none.
\<close>

lemma status_changes_completed:
  assumes "upd_status u = Some (Some ''completed'')" and "status b \<noteq> Some ''completed''"
    and "upd_current_page u = None"
  shows "status_changes clk u b =
     b\<lparr>completed_at := Some (now_completed clk), current_page := total_pages b\<rparr>"
  using assms by (simp add: status_changes_def Let_def)

lemma progress_changes_absent: "upd_current_page u = None \<Longrightarrow> progress_changes clk u b = Inr b"
  by (simp add: progress_changes_def)

lemma setattr_fields_status:
  assumes "upd_current_page u = None" and "upd_status u = Some s"
    and "upd_total_pages u \<noteq> Some None"
    and "upd_title u \<noteq> Some None" and "upd_author u \<noteq> Some None"
  shows "\<exists>b'. setattr_fields u b = Inr b' \<and> bk_id b' = bk_id b \<and>
           current_page b' = current_page b \<and>
           total_pages b' = (case upd_total_pages u of Some (Some t) \<Rightarrow> t | _ \<Rightarrow> total_pages b) \<and>
           status b' = s \<and> started_at b' = started_at b \<and> completed_at b' = completed_at b"
  using assms by (simp add: setattr_fields_def)

lemma update_to_completed:
  assumes g: "get_book db book_id = Some b"
    and st: "upd_status u = Some (Some ''completed'')" and ns: "status b \<noteq> Some ''completed''"
    and cp: "upd_current_page u = None"
    and tp: "upd_total_pages u \<noteq> Some None"
    and ti: "upd_title u \<noteq> Some None" and au: "upd_author u \<noteq> Some None"
  shows "\<exists>db' b'. update_book clk db book_id u = Inr (db', Some b') \<and>
           get_book db' book_id = Some b' \<and>
           status b' = Some ''completed'' \<and> completed_at b' = Some (now_completed clk) \<and>
           current_page b' = total_pages b \<and>
           total_pages b' = (case upd_total_pages u of Some (Some t) \<Rightarrow> t | _ \<Rightarrow> total_pages b)"
proof -
  define b1 where "b1 = b\<lparr>completed_at := Some (now_completed clk), current_page := total_pages b\<rparr>"
  have pc: "progress_changes clk u (status_changes clk u b) = Inr b1"
    unfolding status_changes_completed[OF st ns cp] b1_def
    by (rule progress_changes_absent[OF cp])
  from setattr_fields_status[OF cp st tp ti au, of b1] obtain b2 where
    sf: "setattr_fields u b1 = Inr b2" and id2: "bk_id b2 = bk_id b1" and
    f: "current_page b2 = current_page b1"
      "total_pages b2 = (case upd_total_pages u of Some (Some t) \<Rightarrow> t | _ \<Rightarrow> total_pages b1)"
      "status b2 = Some ''completed''" "completed_at b2 = completed_at b1"
    by blast
  define b' where "b' = b2\<lparr>updated_at := now_updated clk\<rparr>"
  have r: "update_book clk db book_id u = Inr (commit db b', Some b')"
    unfolding b'_def by (rule update_book_Inr[OF g pc sf])
  have gb: "get_book (commit db b') book_id = Some b'"
    by (rule get_book_commit[OF g]) (simp add: b'_def id2 b1_def get_book_Some_id[OF g])
  have fb: "status b' = Some ''completed''" "completed_at b' = Some (now_completed clk)"
    "current_page b' = total_pages b"
    "total_pages b' = (case upd_total_pages u of Some (Some t) \<Rightarrow> t | _ \<Rightarrow> total_pages b)"
  proof -
    have t1: "total_pages b1 = total_pages b" by (simp add: b1_def)
    show "status b' = Some ''completed''" by (simp add: b'_def f)
    show "completed_at b' = Some (now_completed clk)" by (simp add: b'_def f b1_def)
    show "current_page b' = total_pages b" by (simp add: b'_def f b1_def)
    show "total_pages b' =
        (case upd_total_pages u of Some (Some t) \<Rightarrow> t | _ \<Rightarrow> total_pages b)"
      by (simp add: b'_def f(2) t1 split: option.splits)
  qed
  from r gb fb show ?thesis by blast
qed

section \<open>get_reading_stats\<close>

text \<open>
  For the empty table every count is 0, the sum of the pages is 0 and the average is the
  constant \<^verbatim>\<open>0.0\<close>; for any table the three counts are the numbers of rows with each status
  and the total is the number of rows.
\<close>

lemma get_reading_stats_empty:
  "get_reading_stats rounded_mean float_zero [] =
     \<lparr>total_books = 0, books_in_progress = 0, books_completed = 0, books_not_started = 0,
      total_pages_read = 0, average_progress = float_zero\<rparr>"
  by (simp add: get_reading_stats_def status_count_def)

lemma get_reading_stats_counts:
  "total_books (get_reading_stats rounded_mean float_zero db) = int (length db) \<and>
   total_pages_read (get_reading_stats rounded_mean float_zero db) = (\<Sum>r\<leftarrow>db. current_page r) \<and>
   books_completed (get_reading_stats rounded_mean float_zero db) =
     int (length (filter (\<lambda>r. status r = Some ''completed'') db))"
  by (simp add: get_reading_stats_def status_count_def Let_def)

section \<open>Rows of a reachable table\<close>

text \<open>
  Every row of a reachable table has a positive number of pages and a page that is not
  negative, and no two rows share an identifier. The theorems above that assume a positive
  number of pages for a stored book assume what holds of every reachable table.
\<close>

lemma commit_rows: "list_all row_ok db \<Longrightarrow> row_ok b \<Longrightarrow> list_all row_ok (commit db b)"
  by (induction db) (simp_all add: commit_def)

lemma commit_ids: "map bk_id (commit db b) = map bk_id db"
  by (induction db) (simp_all add: commit_def)

lemma get_book_row: "get_book db i = Some b \<Longrightarrow> list_all P db \<Longrightarrow> P b"
  by (auto simp: get_book_def find_Some_iff list_all_length)

lemma fold_max_ge: "a \<le> fold max xs (a::int)"
proof (induction xs arbitrary: a)
  case Nil
  show ?case by simp
next
  case (Cons x xs)
  have "a \<le> max x a" by simp
  also have "\<dots> \<le> fold max xs (max x a)" by (rule Cons.IH)
  finally show ?case by simp
qed

lemma fold_max_mem: "x \<in> set xs \<Longrightarrow> x \<le> fold max xs (a::int)"
proof (induction xs arbitrary: a)
  case Nil
  then show ?case by simp
next
  case (Cons y ys)
  show ?case
  proof (cases "x = y")
    case True
    have "x \<le> max y a" using True by simp
    also have "\<dots> \<le> fold max ys (max y a)" by (rule fold_max_ge)
    finally show ?thesis by simp
  next
    case False
    with Cons.prems have "x \<in> set ys" by simp
    then show ?thesis using Cons.IH by simp
  qed
qed

lemma next_id_fresh: "next_id db \<notin> bk_id ` set db"
proof
  assume "next_id db \<in> bk_id ` set db"
  then have "next_id db \<in> set (map bk_id db)" by simp
  then have "next_id db \<le> fold max (map bk_id db) 0" by (rule fold_max_mem)
  then show False by (simp add: next_id_def)
qed

lemma status_changes_ok: "row_ok b \<Longrightarrow> row_ok (status_changes clk u b)"
  by (simp add: status_changes_def Let_def row_ok_def split: option.splits)

lemma progress_changes_ok: "row_ok b \<Longrightarrow> progress_changes clk u b = Inr b' \<Longrightarrow> row_ok b'"
  by (auto simp add: progress_changes_def mark_in_progress_def mark_completed_def Let_def row_ok_def
      split: option.splits if_splits)

lemma BookUpdate_valid_current_page:
  "BookUpdate_valid u \<Longrightarrow> upd_current_page u = Some (Some p) \<Longrightarrow> 0 \<le> p"
  by (simp add: BookUpdate_valid_def field_ok_def)

lemma setattr_fields_pages:
  assumes "setattr_fields u b = Inr b'"
  shows "bk_id b' = bk_id b"
    and "total_pages b' = (case upd_total_pages u of Some (Some t) \<Rightarrow> t | _ \<Rightarrow> total_pages b)"
    and "current_page b' = (case upd_current_page u of Some (Some p) \<Rightarrow> p | _ \<Rightarrow> current_page b)"
proof -
  from assms have e: "b' = b\<lparr>title := (case upd_title u of Some (Some v) \<Rightarrow> v | _ \<Rightarrow> title b),
                  author := (case upd_author u of Some (Some v) \<Rightarrow> v | _ \<Rightarrow> author b),
                  total_pages := (case upd_total_pages u of Some (Some v) \<Rightarrow> v | _ \<Rightarrow> total_pages b),
                  current_page := (case upd_current_page u of Some (Some v) \<Rightarrow> v | _ \<Rightarrow> current_page b),
                  status := (case upd_status u of None \<Rightarrow> status b | Some v \<Rightarrow> v),
                  cover_url := (case upd_cover_url u of None \<Rightarrow> cover_url b | Some v \<Rightarrow> v),
                  genre := (case upd_genre u of None \<Rightarrow> genre b | Some v \<Rightarrow> v),
                  book_notes := (case upd_notes u of None \<Rightarrow> book_notes b | Some v \<Rightarrow> v),
                  rating := (case upd_rating u of None \<Rightarrow> rating b | Some v \<Rightarrow> v),
                  is_favorite := (case upd_is_favorite u of None \<Rightarrow> is_favorite b | Some v \<Rightarrow> v)\<rparr>"
    unfolding setattr_fields_def by (simp split: if_splits)
  show "bk_id b' = bk_id b" unfolding e by simp
  show "total_pages b' = (case upd_total_pages u of Some (Some t) \<Rightarrow> t | _ \<Rightarrow> total_pages b)"
    unfolding e by simp
  show "current_page b' = (case upd_current_page u of Some (Some p) \<Rightarrow> p | _ \<Rightarrow> current_page b)"
    unfolding e by simp
qed

lemma setattr_fields_ok:
  assumes "row_ok b" and "BookUpdate_valid u" and "setattr_fields u b = Inr b'"
  shows "row_ok b'"
proof -
  have "0 < total_pages b'"
    unfolding setattr_fields_pages(2)[OF assms(3)]
    using assms(1) BookUpdate_valid_total_pages[OF assms(2)]
    by (simp add: row_ok_def split: option.splits)
  moreover have "0 \<le> current_page b'"
    unfolding setattr_fields_pages(3)[OF assms(3)]
    using assms(1) BookUpdate_valid_current_page[OF assms(2)]
    by (simp add: row_ok_def split: option.splits)
  ultimately show ?thesis by (simp add: row_ok_def)
qed

lemma update_book_cases:
  assumes "update_book clk db i u = Inr (db', r)"
  shows "(get_book db i = None \<and> db' = db) \<or>
     (\<exists>b b1 b2. get_book db i = Some b \<and>
        progress_changes clk u (status_changes clk u b) = Inr b1 \<and>
        setattr_fields u b1 = Inr b2 \<and>
        db' = commit db (b2\<lparr>updated_at := now_updated clk\<rparr>))"
proof (cases "get_book db i")
  case None
  with assms show ?thesis by (simp add: update_book_def)
next
  case (Some b)
  with assms show ?thesis
    by (auto simp add: update_book_def Let_def split: sum.splits)
qed

lemma update_book_rows:
  assumes "list_all row_ok db" and "BookUpdate_valid u" and "update_book clk db i u = Inr (db', r)"
  shows "list_all row_ok db'" and "map bk_id db' = map bk_id db"
proof -
  from update_book_cases[OF assms(3)]
  have "list_all row_ok db' \<and> map bk_id db' = map bk_id db"
  proof
    assume "get_book db i = None \<and> db' = db"
    with assms(1) show ?thesis by simp
  next
    assume "\<exists>b b1 b2. get_book db i = Some b \<and>
        progress_changes clk u (status_changes clk u b) = Inr b1 \<and>
        setattr_fields u b1 = Inr b2 \<and>
        db' = commit db (b2\<lparr>updated_at := now_updated clk\<rparr>)"
    then obtain b b1 b2 where g: "get_book db i = Some b"
      and pc: "progress_changes clk u (status_changes clk u b) = Inr b1"
      and sf: "setattr_fields u b1 = Inr b2"
      and db': "db' = commit db (b2\<lparr>updated_at := now_updated clk\<rparr>)" by blast
    have "row_ok b" by (rule get_book_row[OF g assms(1)])
    then have "row_ok (status_changes clk u b)" by (rule status_changes_ok)
    then have "row_ok b1" using pc by (rule progress_changes_ok)
    then have "row_ok b2" using assms(2) sf by (rule setattr_fields_ok)
    then have "row_ok (b2\<lparr>updated_at := now_updated clk\<rparr>)" by (simp add: row_ok_def)
    with assms(1) show ?thesis unfolding db' by (simp add: commit_rows commit_ids)
  qed
  then show "list_all row_ok db'" and "map bk_id db' = map bk_id db" by simp_all
qed

lemma progress_fields_ok:
  assumes "row_ok b" and "ProgressUpdate_valid p"
  shows "row_ok (progress_fields clk p b)"
proof -
  have "current_page (progress_fields clk p b) = min p (total_pages b)"
    by (simp add: progress_fields_def Let_def)
  with assms show ?thesis
    by (simp add: row_ok_def progress_fields_total ProgressUpdate_valid_def)
qed

lemma update_book_progress_rows:
  assumes "list_all row_ok db" and "ProgressUpdate_valid p"
  shows "list_all row_ok (fst (update_book_progress clk db i p))"
    and "map bk_id (fst (update_book_progress clk db i p)) = map bk_id db"
proof -
  have "list_all row_ok (fst (update_book_progress clk db i p)) \<and>
      map bk_id (fst (update_book_progress clk db i p)) = map bk_id db"
  proof (cases "get_book db i")
    case None
    with assms(1) show ?thesis by (simp add: update_book_progress_def)
  next
    case (Some b)
    have "row_ok (progress_fields clk p b)"
      by (rule progress_fields_ok[OF get_book_row[OF Some assms(1)] assms(2)])
    with assms(1) show ?thesis
      by (simp add: update_book_progress_Some[OF Some] commit_rows commit_ids)
  qed
  then show "list_all row_ok (fst (update_book_progress clk db i p))"
    and "map bk_id (fst (update_book_progress clk db i p)) = map bk_id db" by simp_all
qed

lemma update_book_notes_rows:
  assumes "list_all row_ok db"
  shows "list_all row_ok (fst (update_book_notes clk db i s)) \<and>
    map bk_id (fst (update_book_notes clk db i s)) = map bk_id db"
proof (cases "get_book db i")
  case None
  with assms show ?thesis by (simp add: update_book_notes_def)
next
  case (Some b)
  have "row_ok b" by (rule get_book_row[OF Some assms])
  then have "row_ok (b\<lparr>book_notes := Some s, updated_at := now_updated clk\<rparr>)"
    by (simp add: row_ok_def)
  with assms show ?thesis
    by (simp add: update_book_notes_def Some Let_def commit_rows commit_ids)
qed

lemma delete_book_rows:
  assumes "list_all row_ok db" and "distinct (map bk_id db)"
  shows "list_all row_ok (fst (delete_book db i)) \<and> distinct (map bk_id (fst (delete_book db i)))"
proof (cases "get_book db i")
  case None
  with assms show ?thesis by (simp add: delete_book_def)
next
  case (Some b)
  from assms show ?thesis
    by (simp add: delete_book_def Some list_all_iff distinct_map_filter)
qed

lemma create_book_rows:
  assumes "list_all row_ok db" and "distinct (map bk_id db)" and "BookCreate_valid c"
  shows "list_all row_ok (fst (create_book clk db c)) \<and>
    distinct (map bk_id (fst (create_book clk db c)))"
proof -
  have v: "0 < bc_total_pages c" "0 \<le> bc_current_page c"
    using assms(3) by (simp_all add: BookCreate_valid_def)
  have i: "bk_id (snd (create_book clk db c)) = next_id db"
    by (simp add: create_book_def Let_def)
  have ok: "row_ok (snd (create_book clk db c))"
    using v by (simp add: create_book_def Let_def row_ok_def)
  have f: "fst (create_book clk db c) = db @ [snd (create_book clk db c)]"
    by (simp add: create_book_def Let_def)
  show ?thesis
    unfolding f using assms(1,2) ok next_id_fresh[of db] by (simp add: i)
qed

lemma reachable_rows:
  "reachable db \<Longrightarrow> list_all row_ok db \<and> distinct (map bk_id db)"
proof (induction rule: reachable.induct)
  case empty
  show ?case by simp
next
  case (created db c clk)
  then show ?case using create_book_rows by blast
next
  case (updated db u clk i db' r)
  then show ?case using update_book_rows[of db u clk i db' r] by simp
next
  case (progressed db p clk i)
  then show ?case using update_book_progress_rows[of db p clk i] by simp
next
  case (annotated db clk i s)
  then show ?case using update_book_notes_rows[of db clk i s] by simp
next
  case (deleted db i)
  then show ?case using delete_book_rows by blast
qed

lemma reachable_book:
  "reachable db \<Longrightarrow> get_book db i = Some b \<Longrightarrow> 0 < total_pages b \<and> 0 \<le> current_page b"
  using reachable_rows[of db] get_book_row[of db i b row_ok] by (simp add: row_ok_def)

end
